theory Spec2Isabelle
  imports Complex_Main "HOL-Library.Sublist"
begin

section \<open>Python values, exceptions and string operations\<close>

text \<open>
  The program is Python. A \<open>str\<close> is modelled as a \<open>string\<close> whose characters are
  the code points below 256; text with other code points is outside the model. The values
  that \<open>json.loads\<close> and \<open>resp.json()\<close> can produce are the type \<open>pyval\<close>: the
  program indexes, measures and tests such values without checking their type, so the
  model keeps them untyped and writes out every exception the operations raise.
\<close>

datatype pyval =
    PNone
  | PBool bool
  | PInt int
  | PFloat real
  | PStr string
  | PList "pyval list"
  | PDict "(string \<times> pyval) list"

datatype exn =
    KeyError
  | IndexError
  | TypeError
  | AttributeError
  | ValueError
  | LibraryError string

text \<open>Sequencing of computations that may raise: the first exception wins.\<close>

definition raise_bind :: "exn + 'a \<Rightarrow> ('a \<Rightarrow> exn + 'b) \<Rightarrow> exn + 'b" where
  "raise_bind m f = (case m of Inl e \<Rightarrow> Inl e | Inr x \<Rightarrow> f x)"

text \<open>\<open>obj[key]\<close> with a \<open>str\<close> key: only a dict accepts it.\<close>

fun py_getitem_str :: "pyval \<Rightarrow> string \<Rightarrow> exn + pyval" where
  "py_getitem_str (PDict kvs) k = (case map_of kvs k of Some v \<Rightarrow> Inr v | None \<Rightarrow> Inl KeyError)"
| "py_getitem_str _ k = Inl TypeError"

text \<open>
  \<open>obj[i]\<close> with a non-negative \<open>int\<close> index. A dict decoded from JSON has only
  \<open>str\<close> keys, so an \<open>int\<close> key is never found.
\<close>

fun py_getitem_int :: "pyval \<Rightarrow> nat \<Rightarrow> exn + pyval" where
  "py_getitem_int (PList xs) i = (if i < length xs then Inr (xs ! i) else Inl IndexError)"
| "py_getitem_int (PStr s) i = (if i < length s then Inr (PStr [s ! i]) else Inl IndexError)"
| "py_getitem_int (PDict kvs) i = Inl KeyError"
| "py_getitem_int _ i = Inl TypeError"

text \<open>\<open>len(obj)\<close>.\<close>

fun py_len :: "pyval \<Rightarrow> exn + nat" where
  "py_len (PList xs) = Inr (length xs)"
| "py_len (PStr s) = Inr (length s)"
| "py_len (PDict kvs) = Inr (length (remdups (map fst kvs)))"
| "py_len _ = Inl TypeError"

text \<open>The truth value of \<open>obj\<close> in \<open>if obj:\<close>.\<close>

fun py_truthy :: "pyval \<Rightarrow> bool" where
  "py_truthy PNone = False"
| "py_truthy (PBool b) = b"
| "py_truthy (PInt i) = (i \<noteq> 0)"
| "py_truthy (PFloat r) = (r \<noteq> 0)"
| "py_truthy (PStr s) = (s \<noteq> [])"
| "py_truthy (PList xs) = (xs \<noteq> [])"
| "py_truthy (PDict kvs) = (kvs \<noteq> [])"

text \<open>\<open>str.isspace\<close> on one character: code points 9-13, 28-32, 133 and 160.\<close>

definition py_isspace :: "char \<Rightarrow> bool" where
  "py_isspace c = (c \<in> set [CHR 0x09, CHR 0x0A, CHR 0x0B, CHR 0x0C, CHR 0x0D,
     CHR 0x1C, CHR 0x1D, CHR 0x1E, CHR 0x1F, CHR 0x20, CHR 0x85, CHR 0xA0])"

text \<open>\<open>str.strip()\<close>: white space is dropped at both ends.\<close>

definition py_strip :: "string \<Rightarrow> string" where
  "py_strip s = rev (dropWhile py_isspace (rev (dropWhile py_isspace s)))"

text \<open>\<open>str.lower()\<close>: the letters A-Z and the upper-case letters of Latin-1.\<close>

definition lower_table :: "(char \<times> char) list" where
  "lower_table =
     zip ''ABCDEFGHIJKLMNOPQRSTUVWXYZ'' ''abcdefghijklmnopqrstuvwxyz'' @
     zip [CHR 0xC0, CHR 0xC1, CHR 0xC2, CHR 0xC3, CHR 0xC4, CHR 0xC5, CHR 0xC6, CHR 0xC7,
          CHR 0xC8, CHR 0xC9, CHR 0xCA, CHR 0xCB, CHR 0xCC, CHR 0xCD, CHR 0xCE, CHR 0xCF,
          CHR 0xD0, CHR 0xD1, CHR 0xD2, CHR 0xD3, CHR 0xD4, CHR 0xD5, CHR 0xD6,
          CHR 0xD8, CHR 0xD9, CHR 0xDA, CHR 0xDB, CHR 0xDC, CHR 0xDD, CHR 0xDE]
         [CHR 0xE0, CHR 0xE1, CHR 0xE2, CHR 0xE3, CHR 0xE4, CHR 0xE5, CHR 0xE6, CHR 0xE7,
          CHR 0xE8, CHR 0xE9, CHR 0xEA, CHR 0xEB, CHR 0xEC, CHR 0xED, CHR 0xEE, CHR 0xEF,
          CHR 0xF0, CHR 0xF1, CHR 0xF2, CHR 0xF3, CHR 0xF4, CHR 0xF5, CHR 0xF6,
          CHR 0xF8, CHR 0xF9, CHR 0xFA, CHR 0xFB, CHR 0xFC, CHR 0xFD, CHR 0xFE]"

definition py_lower_char :: "char \<Rightarrow> char" where
  "py_lower_char c = (case map_of lower_table c of Some d \<Rightarrow> d | None \<Rightarrow> c)"

definition py_lower :: "string \<Rightarrow> string" where
  "py_lower s = map py_lower_char s"

text \<open>\<open>s.find(c)\<close> and \<open>s.rfind(c)\<close> for a one-character \<open>c\<close>: -1 when absent.\<close>

definition py_find :: "string \<Rightarrow> char \<Rightarrow> int" where
  "py_find s c = (if c \<in> set s then int (length (takeWhile (\<lambda>x. x \<noteq> c) s)) else - 1)"

definition py_rfind :: "string \<Rightarrow> char \<Rightarrow> int" where
  "py_rfind s c =
     (if c \<in> set s then int (length s - 1 - length (takeWhile (\<lambda>x. x \<noteq> c) (rev s))) else - 1)"

text \<open>\<open>s[i:j]\<close> for non-negative \<open>i\<close> and \<open>j\<close>.\<close>

definition py_slice :: "string \<Rightarrow> int \<Rightarrow> int \<Rightarrow> string" where
  "py_slice s i j = drop (nat i) (take (nat j) s)"

definition py_startswith :: "string \<Rightarrow> string \<Rightarrow> bool" where
  "py_startswith s p = (take (length p) s = p)"

text \<open>\<open>sep.join(xs)\<close>.\<close>

fun py_join :: "string \<Rightarrow> string list \<Rightarrow> string" where
  "py_join sep [] = []"
| "py_join sep [x] = x"
| "py_join sep (x # y # ys) = x @ sep @ py_join sep (y # ys)"

text \<open>The decimal rendering of an \<open>int\<close> in an f-string.\<close>

fun str_nat :: "nat \<Rightarrow> string" where
  "str_nat n = (if n < 10 then [''0123456789'' ! n]
                else str_nat (n div 10) @ [''0123456789'' ! (n mod 10)])"

declare str_nat.simps [simp del]

definition str_int :: "int \<Rightarrow> string" where
  "str_int i = (if i < 0 then ''-'' @ str_nat (nat (- i)) else str_nat (nat i))"

definition nl :: string where
  "nl = [CHR 0x0A]"

section \<open>The environment\<close>

text \<open>
  What the program does not define itself is a parameter: the profanity word list,
  the HTTP exchange, the JSON decoder, and Python's rendering of exceptions and values.
  The outcome of a POST may depend on the prompts posted before it (the first argument of
  \<open>requests_post\<close>), so the remote service may answer the same prompt differently at
  different times.
\<close>

record response =
  status_code :: int
  resp_text :: string
  resp_json :: "exn + pyval"

record env =
  profanity_contains_profanity :: "string \<Rightarrow> bool"
  requests_post :: "string list \<Rightarrow> string \<Rightarrow> exn + response"
  json_loads :: "string \<Rightarrow> exn + pyval"
  exn_str :: "exn \<Rightarrow> string"
  py_repr :: "pyval \<Rightarrow> string"

text \<open>An interpolated \<open>{value}\<close> of an f-string: a \<open>str\<close> is inserted as it is.\<close>

definition py_format :: "env \<Rightarrow> pyval \<Rightarrow> string" where
  "py_format env v = (case v of PStr s \<Rightarrow> s | _ \<Rightarrow> py_repr env v)"

section \<open>The remote model client\<close>

text \<open>
  \<open>call_gemini_api\<close> returns the value it computes and the log of posted prompts, extended
  by this prompt. Every exception of the \<open>try\<close> block becomes an \<open>Error: \<close> string.
\<close>

definition candidate_text :: "response \<Rightarrow> exn + pyval" where
  "candidate_text resp =
     raise_bind (resp_json resp) (\<lambda>j.
     raise_bind (py_getitem_str j ''candidates'') (\<lambda>cs.
     raise_bind (py_getitem_int cs 0) (\<lambda>c.
     raise_bind (py_getitem_str c ''content'') (\<lambda>ct.
     raise_bind (py_getitem_str ct ''parts'') (\<lambda>ps.
     raise_bind (py_getitem_int ps 0) (\<lambda>p.
     py_getitem_str p ''text''))))))"

definition call_gemini_api :: "env \<Rightarrow> string list \<Rightarrow> string \<Rightarrow> pyval \<times> string list" where
  "call_gemini_api env lg prompt =
     ((case requests_post env lg prompt of
         Inl e \<Rightarrow> PStr (''Error: '' @ exn_str env e)
       | Inr resp \<Rightarrow>
           if status_code resp = 200 then
             (case candidate_text resp of
                Inl e \<Rightarrow> PStr (''Error: '' @ exn_str env e)
              | Inr v \<Rightarrow> v)
           else PStr (''Error '' @ str_int (status_code resp) @ '': '' @ resp_text resp)),
      lg @ [prompt])"

definition contains_profanity :: "env \<Rightarrow> string \<Rightarrow> bool" where
  "contains_profanity env text = profanity_contains_profanity env text"

section \<open>The company check\<close>

definition check_prompt :: "string \<Rightarrow> string" where
  \<open>check_prompt company_name =
     nl @ ''Check if the company name "'' @ company_name @ ''" is recognized in the context'' @ nl @
     ''of campus placements at St. Xavier's College, Mumbai.'' @ nl @
     nl @
     ''If yes, respond EXACTLY with "VALID".'' @ nl @
     ''Otherwise respond EXACTLY with "INVALID".'' @ nl @
     nl @
     ''IMPORTANT: No extra text or explanation.'' @ nl\<close>

text \<open>A response that is not a \<open>str\<close> has no \<open>strip\<close>: the call raises.\<close>

definition gemini_check_company :: "env \<Rightarrow> string list \<Rightarrow> string \<Rightarrow> (exn + bool) \<times> string list" where
  "gemini_check_company env lg company_name =
     (case call_gemini_api env lg (check_prompt company_name) of
        (response, lg') \<Rightarrow>
          ((case response of
              PStr s \<Rightarrow> Inr (py_lower (py_strip s) = ''valid'')
            | _ \<Rightarrow> Inl AttributeError),
           lg'))"

section \<open>The question generator\<close>

definition questions_prompt :: "string \<Rightarrow> string" where
  \<open>questions_prompt r =
     nl @ ''Generate exactly 5 technical interview questions and 5 behavioral interview questions'' @ nl @
     ''for the role: "'' @ r @ ''" at St. Xavier's College campus placements.'' @ nl @
     ''- If the role is IT/software related, include at least 2 coding or programming questions.'' @ nl @
     ''Return ONLY valid JSON, with keys:'' @ nl @
     ''  "technical_questions": <array of 5 strings>,'' @ nl @
     ''  "behavioral_questions": <array of 5 strings>.'' @ nl @
     ''No code fences, no extra commentary.'' @ nl\<close>

definition fallback_tech :: pyval where
  "fallback_tech = PList [
     PStr ''Explain what OOP is.'',
     PStr ''What is a database index?'',
     PStr ''How does a binary search work?'',
     PStr ''What is an API, and how do you use it?'',
     PStr ''Describe how you would optimize a slow SQL query.'']"

definition fallback_beh :: pyval where
  "fallback_beh = PList [
     PStr ''Tell me about a challenge you overcame in a team.'',
     PStr ''How do you handle tight deadlines?'',
     PStr ''Describe a time you received critical feedback.'',
     PStr ''What does work-life balance mean to you?'',
     PStr ''What motivates you to succeed?'']"

text \<open>The span from the first \<open>{\<close> to the last \<open>}\<close>, or the empty string.\<close>

definition extract_json :: "string \<Rightarrow> string" where
  "extract_json raw_response =
     (let start_idx = py_find raw_response CHR ''{'';
          end_idx = py_rfind raw_response CHR ''}''
      in if start_idx \<noteq> - 1 \<and> end_idx \<noteq> - 1 \<and> end_idx > start_idx
         then py_strip (py_slice raw_response start_idx (end_idx + 1))
         else [])"

text \<open>The \<open>try\<close> block: decode, read both keys, check both lengths.\<close>

definition parse_questions :: "env \<Rightarrow> string \<Rightarrow> exn + (pyval \<times> pyval)" where
  "parse_questions env json_str =
     raise_bind (json_loads env json_str) (\<lambda>data.
     raise_bind (py_getitem_str data ''technical_questions'') (\<lambda>tech.
     raise_bind (py_getitem_str data ''behavioral_questions'') (\<lambda>beh.
     raise_bind (py_len tech) (\<lambda>n_tech.
       if n_tech \<noteq> 5 then Inl ValueError
       else raise_bind (py_len beh) (\<lambda>n_beh.
         if n_beh \<noteq> 5 then Inl ValueError else Inr (tech, beh))))))"

text \<open>
  \<open>raw_response.find\<close> is outside the \<open>try\<close> block: a response that is not a
  \<open>str\<close> raises to the caller. Every exception inside the block selects the fallback.
\<close>

definition gemini_generate_questions ::
  "env \<Rightarrow> string list \<Rightarrow> string \<Rightarrow> (exn + (pyval \<times> pyval)) \<times> string list" where
  "gemini_generate_questions env lg r =
     (case call_gemini_api env lg (questions_prompt r) of
        (raw_response, lg') \<Rightarrow>
          ((case raw_response of
              PStr raw \<Rightarrow>
                Inr (case parse_questions env (extract_json raw) of
                       Inl e \<Rightarrow> (fallback_tech, fallback_beh)
                     | Inr tb \<Rightarrow> tb)
            | _ \<Rightarrow> Inl AttributeError),
           lg'))"

section \<open>The test manager\<close>

record test_manager =
  in_test :: bool
  question_index :: nat
  company :: string
  role :: string
  technical_questions :: pyval
  behavioral_questions :: pyval
  user_answers :: "string list"

definition TestManager_init :: test_manager where
  "TestManager_init = \<lparr>in_test = False, question_index = 0, company = [], role = [],
     technical_questions = PList [], behavioral_questions = PList [], user_answers = []\<rparr>"

definition set_company :: "env \<Rightarrow> string list \<Rightarrow> string \<Rightarrow> (exn + bool) \<times> string list" where
  "set_company env lg name = gemini_check_company env lg name"

definition set_role :: "string \<Rightarrow> test_manager \<Rightarrow> test_manager" where
  "set_role r tm = tm\<lparr>role := r\<rparr>"

definition generate_test_questions ::
  "env \<Rightarrow> string list \<Rightarrow> test_manager \<Rightarrow> (exn + test_manager) \<times> string list" where
  "generate_test_questions env lg tm =
     (case gemini_generate_questions env lg (role tm) of
        (Inl e, lg') \<Rightarrow> (Inl e, lg')
      | (Inr (tech, beh), lg') \<Rightarrow>
          (Inr (tm\<lparr>technical_questions := tech, behavioral_questions := beh\<rparr>), lg'))"

text \<open>
  \<open>next_question\<close> returns the question (\<open>PNone\<close> for \<open>None\<close>) and the updated manager.
  The index moves on under \<open>if q:\<close>, the truth value of the question.
\<close>

definition next_question :: "test_manager \<Rightarrow> exn + (pyval \<times> test_manager)" where
  "next_question tm =
     raise_bind (py_len (technical_questions tm)) (\<lambda>total_tech.
     raise_bind (py_len (behavioral_questions tm)) (\<lambda>total_beh.
     raise_bind
       (if question_index tm < total_tech
        then py_getitem_int (technical_questions tm) (question_index tm)
        else if question_index tm < total_tech + total_beh
        then py_getitem_int (behavioral_questions tm) (question_index tm - total_tech)
        else Inr PNone) (\<lambda>q.
     Inr (q, if py_truthy q then tm\<lparr>question_index := question_index tm + 1\<rparr> else tm))))"

definition store_answer :: "string \<Rightarrow> test_manager \<Rightarrow> test_manager" where
  "store_answer answer tm = tm\<lparr>user_answers := user_answers tm @ [answer]\<rparr>"

definition all_answers_collected :: "test_manager \<Rightarrow> exn + bool" where
  "all_answers_collected tm =
     raise_bind (py_len (technical_questions tm)) (\<lambda>n_tech.
     raise_bind (py_len (behavioral_questions tm)) (\<lambda>n_beh.
     Inr (length (user_answers tm) \<ge> n_tech + n_beh)))"

definition evaluation_prompt :: "env \<Rightarrow> test_manager \<Rightarrow> string" where
  \<open>evaluation_prompt env tm =
     nl @ ''Evaluate these interview answers for '' @ company tm @ '' ('' @ role tm @ ''):'' @ nl @
     ''Technical Questions:'' @ nl @
     py_format env (technical_questions tm) @ nl @
     ''Behavioral Questions:'' @ nl @
     py_format env (behavioral_questions tm) @ nl @
     ''Answers:'' @ nl @
     py_format env (PList (map PStr (user_answers tm))) @ nl @
     nl @
     ''Give detailed feedback for each answer and a final (0-100%) 'placement probability'.'' @ nl\<close>

definition evaluate_answers :: "env \<Rightarrow> string list \<Rightarrow> test_manager \<Rightarrow> pyval \<times> string list" where
  "evaluate_answers env lg tm = call_gemini_api env lg (evaluation_prompt env tm)"

section \<open>The chat window\<close>

text \<open>
  The fixed system prompt. The two typographic apostrophes of the source text are beyond
  code point 255 and are written as ASCII apostrophes here.
\<close>

definition COLLEGE_INFO_about :: string where
  \<open>COLLEGE_INFO_about =
     ''St. Xavier's College, Mumbai, is a leading institution offering a wide range of '' @
     ''undergraduate and postgraduate courses in Arts, Science, Commerce, and Management. '' @
     ''Known for its rich legacy and distinguished alumni, the college emphasizes '' @
     ''holistic student development.''\<close>

definition COLLEGE_INFO_courses :: "string list" where
  \<open>COLLEGE_INFO_courses = [
     ''Bachelor of Arts (B.A.)'',
     ''Bachelor of Science (B.Sc.)'',
     ''Bachelor of Commerce (B.Com.)'',
     ''Bachelor of Management Studies (BMS)'',
     ''Bachelor of Mass Media (BMM)'',
     ''M.A. in Public Policy'',
     ''M.Sc. in Biotechnology'',
     ''PhD Programs in select disciplines'']\<close>

definition COLLEGE_INFO_placement_cell_head :: string where
  \<open>COLLEGE_INFO_placement_cell_head = ''Ms.Radhika Tendulkar''\<close>

definition COLLEGE_INFO_placement_cell_email :: string where
  \<open>COLLEGE_INFO_placement_cell_email = ''radhika.tendulkar@xaviers.edu''\<close>

definition COLLEGE_INFO_placement_cell_highest_package_ever :: int where
  \<open>COLLEGE_INFO_placement_cell_highest_package_ever = 24\<close>

definition COLLEGE_INFO_placement_cell_latest_info :: string where
  \<open>COLLEGE_INFO_placement_cell_latest_info =
     ''The 2023 placement season saw record participation from 55 companies, '' @
     ''with an average package of 8 LPA.''\<close>

definition SYSTEM_PROMPT :: string where
  \<open>SYSTEM_PROMPT =
     nl @ ''You are JoSi, the official placement and academic guide chatbot for St. Xavier's College, Mumbai. '' @ nl @
     ''Use the following knowledge to answer queries precisely:'' @ nl @
     nl @
     ''**College Data**:'' @ nl @
     ''About: '' @ COLLEGE_INFO_about @ nl @
     ''Available Courses: '' @ py_join '', '' COLLEGE_INFO_courses @ nl @
     nl @
     ''**Placement Cell**:'' @ nl @
     ''Head: '' @ COLLEGE_INFO_placement_cell_head @ nl @
     ''Email: '' @ COLLEGE_INFO_placement_cell_email @ nl @
     ''Highest Package Ever: '' @ str_int COLLEGE_INFO_placement_cell_highest_package_ever @ '' LPA'' @ nl @
     ''Latest Info: '' @ COLLEGE_INFO_placement_cell_latest_info @ nl @
     nl @
     ''You can provide:'' @ nl @
     '' - Placement guidance'' @ nl @
     '' - Interview prep'' @ nl @
     '' - Course suggestions'' @ nl @
     '' - Info about the college's history or academic programs'' @ nl @
     nl @
     ''**Important**:'' @ nl @
     ''1. If a user's text has profanity or offensive language, politely refuse to answer further.'' @ nl @
     ''2. For the "Placement Test," ask 5 technical + 5 behavioral questions one-by-one. '' @ nl @
     ''   Collect each answer, then evaluate all at the end.'' @ nl @
     ''3. Use short paragraphs and **Markdown** formatting (headings `###`, bullets, bold, etc.).'' @ nl @
     ''4. Highest package is exactly 24 LPA, be precise if asked.'' @ nl @
     nl @
     ''NOTE: If you are returning data for a "company check," respond EXACTLY with "VALID" or "INVALID" and nothing else.'' @ nl\<close>

text \<open>
  The state of \<open>EnhancedChatbotGUI\<close>. \<open>chat_display\<close> holds the messages handed to
  \<open>add_message\<close> since the window was built, as sender, text and error flag; how a
  message is rendered (time stamp, markup, widgets) is not modelled. \<open>sent\<close> is the log of
  the prompts posted to the remote service; the program keeps no such log.
\<close>

record turn =
  sender :: string
  turn_text :: string

record app =
  conversation_history :: "turn list"
  test_manager :: test_manager
  is_processing :: bool
  chat_display :: "(string \<times> string \<times> bool) list"
  sent :: "string list"

definition EnhancedChatbotGUI_init :: app where
  "EnhancedChatbotGUI_init = \<lparr>conversation_history = [], test_manager = TestManager_init,
     is_processing = False, chat_display = [], sent = []\<rparr>"

definition add_message :: "string \<Rightarrow> string \<Rightarrow> bool \<Rightarrow> app \<Rightarrow> app" where
  "add_message who message is_error a =
     a\<lparr>chat_display := chat_display a @ [(who, message, is_error)]\<rparr>"

text \<open>
  \<open>add_message\<close> on a value of any type: \<open>message + "\n\n"\<close> raises \<open>TypeError\<close>
  unless the message is a \<open>str\<close>.
\<close>

definition add_message_value :: "string \<Rightarrow> pyval \<Rightarrow> bool \<Rightarrow> app \<Rightarrow> exn + app" where
  "add_message_value who v is_error a =
     (case v of PStr s \<Rightarrow> Inr (add_message who s is_error a) | _ \<Rightarrow> Inl TypeError)"

definition enable_input :: "app \<Rightarrow> app" where
  "enable_input a = a\<lparr>is_processing := False\<rparr>"

definition start_test :: "app \<Rightarrow> app" where
  \<open>start_test a =
     add_message ''JoSi''
       (''Starting placement test!'' @ nl @
        ''Please enter a **company name** you believe visits St. Xavier's College for placements:'')
       False
       (a\<lparr>test_manager := (test_manager a)\<lparr>in_test := True\<rparr>\<rparr>)\<close>

definition exit_test :: "app \<Rightarrow> app" where
  \<open>exit_test a =
     add_message ''JoSi'' ''Exited test mode. How else can I help you?'' False
       (a\<lparr>test_manager := TestManager_init\<rparr>)\<close>

text \<open>
  The functions of the test flow return the exception that escaped, if any, and the state
  reached: what was changed before a \<open>raise\<close> stays changed.
\<close>

definition evaluate_and_exit :: "env \<Rightarrow> app \<Rightarrow> exn option \<times> app" where
  \<open>evaluate_and_exit env a =
     (case evaluate_answers env (sent a) (test_manager a) of
        (result, lg') \<Rightarrow>
          (case add_message_value ''JoSi'' result False (a\<lparr>sent := lg'\<rparr>) of
             Inl e \<Rightarrow> (Some e, a\<lparr>sent := lg'\<rparr>)
           | Inr a' \<Rightarrow> (None, exit_test a')))\<close>

definition ask_next_question :: "env \<Rightarrow> app \<Rightarrow> exn option \<times> app" where
  \<open>ask_next_question env a =
     (case next_question (test_manager a) of
        Inl e \<Rightarrow> (Some e, a)
      | Inr (question, tm') \<Rightarrow>
          (if question = PNone then evaluate_and_exit env (a\<lparr>test_manager := tm'\<rparr>)
           else (None, add_message ''JoSi''
                   (''**Q'' @ str_int (int (question_index tm')) @ '':** '' @ py_format env question)
                   False (a\<lparr>test_manager := tm'\<rparr>))))\<close>

definition handle_test_flow :: "env \<Rightarrow> string \<Rightarrow> app \<Rightarrow> exn option \<times> app" where
  \<open>handle_test_flow env user_input a =
     (let tm = test_manager a in
      if company tm = [] then
        (case set_company env (sent a) user_input of
           (Inl e, lg') \<Rightarrow> (Some e, a\<lparr>sent := lg'\<rparr>)
         | (Inr valid, lg') \<Rightarrow>
             if \<not> valid then
               (None, add_message ''JoSi''
                  (''That company is **NOT recognized** for campus placements (or the model isn't sure). '' @
                   ''Please try another company name.'')
                  False (a\<lparr>sent := lg'\<rparr>))
             else
               (None, add_message ''JoSi''
                  (''Great! Now enter the role you're applying for at '' @ user_input @ '':'')
                  False (a\<lparr>test_manager := tm\<lparr>company := user_input\<rparr>, sent := lg'\<rparr>)))
      else if role tm = [] then
        (case generate_test_questions env (sent a) (set_role user_input tm) of
           (Inl e, lg') \<Rightarrow> (Some e, a\<lparr>test_manager := set_role user_input tm, sent := lg'\<rparr>)
         | (Inr tm', lg') \<Rightarrow>
             ask_next_question env
               (add_message ''JoSi'' ''Excellent! Let's begin with the first question:'' False
                  (a\<lparr>test_manager := tm', sent := lg'\<rparr>)))
      else
        (let a' = a\<lparr>test_manager := store_answer user_input tm\<rparr> in
         case all_answers_collected (test_manager a') of
           Inl e \<Rightarrow> (Some e, a')
         | Inr collected \<Rightarrow>
             if collected then evaluate_and_exit env a' else ask_next_question env a'))\<close>

definition last5 :: "'a list \<Rightarrow> 'a list" where
  "last5 xs = drop (length xs - 5) xs"

definition final_text :: "turn list \<Rightarrow> string \<Rightarrow> string" where
  \<open>final_text history prompt =
     SYSTEM_PROMPT @ nl @ nl @
     py_join nl (map (\<lambda>msg. sender msg @ '': '' @ turn_text msg) (last5 history)) @
     nl @ ''User: '' @ prompt\<close>

definition get_response :: "env \<Rightarrow> string \<Rightarrow> app \<Rightarrow> pyval \<times> app" where
  \<open>get_response env prompt a =
     (if contains_profanity env prompt then (PStr ''I'm sorry, but I cannot respond to that.'', a)
      else (case call_gemini_api env (sent a) (final_text (conversation_history a) prompt) of
              (response, lg') \<Rightarrow> (response, a\<lparr>sent := lg'\<rparr>)))\<close>

definition process_test_message :: "env \<Rightarrow> string \<Rightarrow> app \<Rightarrow> app" where
  \<open>process_test_message env user_text a =
     (case handle_test_flow env user_text a of
        (None, a') \<Rightarrow> enable_input a'
      | (Some e, a') \<Rightarrow>
          enable_input (add_message ''JoSi'' (''Error in test flow: '' @ exn_str env e) True a'))\<close>

text \<open>\<open>resp.startswith\<close> raises \<open>AttributeError\<close> when the response is not a \<open>str\<close>.\<close>

definition process_normal_message :: "env \<Rightarrow> string \<Rightarrow> app \<Rightarrow> app" where
  \<open>process_normal_message env user_text a =
     (case get_response env user_text a of
        (resp, a') \<Rightarrow>
          enable_input
            (case resp of
               PStr s \<Rightarrow>
                 add_message ''JoSi'' s (py_startswith s ''Error'')
                   (a'\<lparr>conversation_history :=
                         conversation_history a' @ [\<lparr>sender = ''JoSi'', turn_text = s\<rparr>]\<rparr>)
             | _ \<Rightarrow> add_message ''JoSi'' (''Error: '' @ exn_str env AttributeError) True a'))\<close>

text \<open>
  \<open>send_message\<close> with the content of the input field; the worker thread it starts is run
  to its end, since the input stays disabled until then.
\<close>

definition send_message :: "env \<Rightarrow> string \<Rightarrow> app \<Rightarrow> app" where
  \<open>send_message env input_field a =
     (if is_processing a then a
      else
        (let user_text = py_strip input_field in
         if user_text = [] then a
         else
           (let a1 = add_message ''You'' user_text False a in
            if contains_profanity env user_text then
              enable_input (add_message ''JoSi'' ''Sorry, I can't respond to that language.'' True a1)
            else
              (let a2 = a1\<lparr>conversation_history :=
                             conversation_history a1 @ [\<lparr>sender = ''user'', turn_text = user_text\<rparr>],
                           is_processing := True\<rparr>
               in if in_test (test_manager a2) then process_test_message env user_text a2
                  else process_normal_message env user_text a2))))\<close>

text \<open>The user's actions: a message, or one of the two buttons.\<close>

datatype event = Send string | StartTest | ExitTest

fun step :: "env \<Rightarrow> app \<Rightarrow> event \<Rightarrow> app" where
  "step env a (Send input_field) = send_message env input_field a"
| "step env a StartTest = start_test a"
| "step env a ExitTest = exit_test a"

definition run :: "env \<Rightarrow> event list \<Rightarrow> app" where
  "run env events = foldl (step env) EnhancedChatbotGUI_init events"

section \<open>Example environments\<close>

text \<open>
  Concrete environments, used to run the program on explicit inputs. The stub filter flags
  one word, the stub decoders know the one text they are given, and the stub renderings of
  exceptions and values are placeholders.
\<close>

definition stub_exn_str :: "exn \<Rightarrow> string" where
  "stub_exn_str e = (case e of LibraryError m \<Rightarrow> m | _ \<Rightarrow> ''exception'')"

definition stub_env ::
  "(string list \<Rightarrow> string \<Rightarrow> exn + response) \<Rightarrow> (string \<Rightarrow> exn + pyval) \<Rightarrow> env" where
  "stub_env post loads = \<lparr>profanity_contains_profanity = (\<lambda>s. s = ''damn''),
     requests_post = post, json_loads = loads, exn_str = stub_exn_str,
     py_repr = (\<lambda>v. ''<value>'')\<rparr>"

definition loads_reject :: "string \<Rightarrow> exn + pyval" where
  "loads_reject s = Inl (LibraryError ''Expecting value: line 1 column 1 (char 0)'')"

text \<open>A reply of the service whose first text part is \<open>v\<close>, and its body for a text.\<close>

definition gemini_body :: "pyval \<Rightarrow> pyval" where
  "gemini_body v = PDict [(''candidates'',
     PList [PDict [(''content'', PDict [(''parts'', PList [PDict [(''text'', v)]])])]])]"

definition json_escape :: "string \<Rightarrow> string" where
  "json_escape s =
     concat (map (\<lambda>c. if c = CHR 0x22 \<or> c = CHR 0x5C then [CHR 0x5C, c] else [c]) s)"

definition text_response :: "int \<Rightarrow> string \<Rightarrow> response" where
  \<open>text_response code t = \<lparr>status_code = code,
     resp_text = ''{"candidates":[{"content":{"parts":[{"text":"'' @ json_escape t @ ''"}]}}]}'',
     resp_json = Inr (gemini_body (PStr t))\<rparr>\<close>

definition server_error_response :: response where
  "server_error_response = \<lparr>status_code = 500, resp_text = ''server error'',
     resp_json = Inl (LibraryError ''Expecting value: line 1 column 1 (char 0)'')\<rparr>"

definition garbled_response :: response where
  "garbled_response = \<lparr>status_code = 200, resp_text = ''<html>'',
     resp_json = Inl (LibraryError ''Expecting value: line 1 column 1 (char 0)'')\<rparr>"

definition env_reply :: "string \<Rightarrow> env" where
  "env_reply t = stub_env (\<lambda>lg prompt. Inr (text_response 200 t)) loads_reject"

definition env_created :: env where
  "env_created = stub_env (\<lambda>lg prompt. Inr (text_response 201 ''Hi there'')) loads_reject"

definition env_500 :: env where
  "env_500 = stub_env (\<lambda>lg prompt. Inr server_error_response) loads_reject"

definition env_garbled :: env where
  "env_garbled = stub_env (\<lambda>lg prompt. Inr garbled_response) loads_reject"

definition env_down :: env where
  "env_down = stub_env (\<lambda>lg prompt. Inl (LibraryError ''Connection refused'')) loads_reject"

text \<open>A reply to the question prompt whose arrays hold numbers.\<close>

definition numbers_text :: string where
  \<open>numbers_text =
     ''{"technical_questions": [1, 2, 3, 4, 5], "behavioral_questions": [6, 7, 8, 9, 10]}''\<close>

definition numbers_loads :: "string \<Rightarrow> exn + pyval" where
  "numbers_loads s =
     (if s = numbers_text
      then Inr (PDict [(''technical_questions'', PList [PInt 1, PInt 2, PInt 3, PInt 4, PInt 5]),
                       (''behavioral_questions'', PList [PInt 6, PInt 7, PInt 8, PInt 9, PInt 10])])
      else loads_reject s)"

definition env_numbers :: env where
  "env_numbers = stub_env (\<lambda>lg prompt. Inr (text_response 200 numbers_text)) numbers_loads"

text \<open>
  A service that accepts the company on the first call and then replies to the question
  prompt with a set whose first technical question is the empty string.
\<close>

definition blank_text :: string where
  \<open>blank_text =
     ''{"technical_questions": ["", "T2", "T3", "T4", "T5"], "behavioral_questions": ["B1", "B2", "B3", "B4", "B5"]}''\<close>

definition blank_tech :: pyval where
  "blank_tech = PList [PStr [], PStr ''T2'', PStr ''T3'', PStr ''T4'', PStr ''T5'']"

definition blank_beh :: pyval where
  "blank_beh = PList [PStr ''B1'', PStr ''B2'', PStr ''B3'', PStr ''B4'', PStr ''B5'']"

definition blank_loads :: "string \<Rightarrow> exn + pyval" where
  "blank_loads s =
     (if s = blank_text
      then Inr (PDict [(''technical_questions'', blank_tech), (''behavioral_questions'', blank_beh)])
      else loads_reject s)"

definition env_blank :: env where
  "env_blank = stub_env
     (\<lambda>lg prompt. Inr (text_response 200 (if lg = [] then ''VALID'' else blank_text)))
     blank_loads"

definition tm_blank :: test_manager where
  "tm_blank = \<lparr>in_test = True, question_index = 0, company = ''Acme'', role = ''developer'',
     technical_questions = blank_tech, behavioral_questions = blank_beh, user_answers = []\<rparr>"



section \<open>Properties of a test session\<close>






section \<open>The remote model client: results\<close>

lemma fst_call_gemini_api:
  "fst (call_gemini_api env lg prompt) =
     (case requests_post env lg prompt of
         Inl e \<Rightarrow> PStr (''Error: '' @ exn_str env e)
       | Inr resp \<Rightarrow>
           if status_code resp = 200 then
             (case candidate_text resp of
                Inl e \<Rightarrow> PStr (''Error: '' @ exn_str env e)
              | Inr v \<Rightarrow> v)
           else PStr (''Error '' @ str_int (status_code resp) @ '': '' @ resp_text resp))"
  by (simp add: call_gemini_api_def)


lemma candidate_text_first_part:
  assumes "resp_json resp = Inr j"
    and "py_getitem_str j ''candidates'' = Inr (PList (c # cs))"
    and "py_getitem_str c ''content'' = Inr ct"
    and "py_getitem_str ct ''parts'' = Inr (PList (p # ps))"
    and "py_getitem_str p ''text'' = Inr v"
  shows "candidate_text resp = Inr v"
  using assms by (simp add: candidate_text_def raise_bind_def)

lemma candidate_text_text_response: "candidate_text (text_response code t) = Inr (PStr t)"
  by (simp add: candidate_text_def text_response_def gemini_body_def raise_bind_def)

lemma call_text_response:
  "requests_post env lg p = Inr (text_response 200 t) \<Longrightarrow>
   call_gemini_api env lg p = (PStr t, lg @ [p])"
  by (simp add: call_gemini_api_def candidate_text_text_response) (simp add: text_response_def)

lemma call_env_reply: "call_gemini_api (env_reply t) lg p = (PStr t, lg @ [p])"
  by (rule call_text_response) (simp add: env_reply_def stub_env_def)

lemma call_env_500:
  "call_gemini_api env_500 lg p = (PStr ''Error 500: server error'', lg @ [p])"
  by (simp add: call_gemini_api_def env_500_def stub_env_def server_error_response_def
      str_int_def str_nat.simps)

text \<open>
  C4, as the code has it. The text of the first part of the first candidate is returned
  when the status is 200 and the body has that shape. Every other status, the other 2xx
  codes too, gives \<open>Error <status>: <body>\<close>. An exception of the transport, of the
  decoder or of the indexing gives \<open>Error: <message>\<close>. The function returns a value in
  every case, so nothing is raised to the caller.
\<close>

theorem call_gemini_api_cases:
  "(requests_post env lg prompt = Inl e \<longrightarrow>
      fst (call_gemini_api env lg prompt) = PStr (''Error: '' @ exn_str env e)) \<and>
   (requests_post env lg prompt = Inr resp \<and> status_code resp \<noteq> 200 \<longrightarrow>
      fst (call_gemini_api env lg prompt) =
        PStr (''Error '' @ str_int (status_code resp) @ '': '' @ resp_text resp)) \<and>
   (requests_post env lg prompt = Inr resp \<and> status_code resp = 200 \<and>
    resp_json resp = Inr j \<and>
    py_getitem_str j ''candidates'' = Inr (PList (c # cs)) \<and>
    py_getitem_str c ''content'' = Inr ct \<and>
    py_getitem_str ct ''parts'' = Inr (PList (p # ps)) \<and>
    py_getitem_str p ''text'' = Inr v \<longrightarrow>
      fst (call_gemini_api env lg prompt) = v) \<and>
   (requests_post env lg prompt = Inr resp \<and> status_code resp = 200 \<and>
    candidate_text resp = Inl e \<longrightarrow>
      fst (call_gemini_api env lg prompt) = PStr (''Error: '' @ exn_str env e))"
  by (auto simp: fst_call_gemini_api candidate_text_first_part)

text \<open>The four cases of C4 on explicit exchanges.\<close>

theorem call_gemini_api_cases_witness:
  "fst (call_gemini_api env_down [] ''hello'') = PStr ''Error: Connection refused'' \<and>
   fst (call_gemini_api env_500 [] ''hello'') = PStr ''Error 500: server error'' \<and>
   fst (call_gemini_api (env_reply ''Hi there'') [] ''hello'') = PStr ''Hi there'' \<and>
   fst (call_gemini_api env_garbled [] ''hello'') =
     PStr ''Error: Expecting value: line 1 column 1 (char 0)''"
proof -
  have 1: "requests_post env_down [] ''hello'' = Inl (LibraryError ''Connection refused'')"
    by (simp add: env_down_def stub_env_def)
  have 2: "requests_post env_500 [] ''hello'' = Inr server_error_response \<and>
           status_code server_error_response \<noteq> 200"
    by (simp add: env_500_def stub_env_def server_error_response_def)
  have 3: "requests_post (env_reply ''Hi there'') [] ''hello'' = Inr (text_response 200 ''Hi there'') \<and>
     status_code (text_response 200 ''Hi there'') = 200 \<and>
     resp_json (text_response 200 ''Hi there'') = Inr (gemini_body (PStr ''Hi there'')) \<and>
     py_getitem_str (gemini_body (PStr ''Hi there'')) ''candidates'' =
       Inr (PList (PDict [(''content'', PDict [(''parts'', PList [PDict [(''text'', PStr ''Hi there'')]])])] # [])) \<and>
     py_getitem_str (PDict [(''content'', PDict [(''parts'', PList [PDict [(''text'', PStr ''Hi there'')]])])]) ''content'' =
       Inr (PDict [(''parts'', PList [PDict [(''text'', PStr ''Hi there'')]])]) \<and>
     py_getitem_str (PDict [(''parts'', PList [PDict [(''text'', PStr ''Hi there'')]])]) ''parts'' =
       Inr (PList (PDict [(''text'', PStr ''Hi there'')] # [])) \<and>
     py_getitem_str (PDict [(''text'', PStr ''Hi there'')]) ''text'' = Inr (PStr ''Hi there'')"
    by (simp add: env_reply_def stub_env_def text_response_def gemini_body_def)
  have 4: "requests_post env_garbled [] ''hello'' = Inr garbled_response \<and>
           status_code garbled_response = 200 \<and>
           candidate_text garbled_response =
             Inl (LibraryError ''Expecting value: line 1 column 1 (char 0)'')"
    by (simp add: env_garbled_def stub_env_def garbled_response_def candidate_text_def raise_bind_def)
  have s: "exn_str env_down = stub_exn_str" "exn_str env_garbled = stub_exn_str"
    by (simp_all add: env_down_def env_garbled_def stub_env_def)
  have a: "fst (call_gemini_api env_down [] ''hello'') = PStr ''Error: Connection refused''"
    using call_gemini_api_cases [where env = env_down and lg = "[]" and prompt = "''hello''"
        and e = "LibraryError ''Connection refused''"] 1
    by (simp add: s stub_exn_str_def)
  have b: "fst (call_gemini_api env_500 [] ''hello'') = PStr ''Error 500: server error''"
    using call_gemini_api_cases [where env = env_500 and lg = "[]" and prompt = "''hello''"
        and resp = server_error_response] 2
    by (simp add: server_error_response_def str_int_def str_nat.simps)
  have c: "fst (call_gemini_api (env_reply ''Hi there'') [] ''hello'') = PStr ''Hi there''"
    using call_gemini_api_cases [where env = "env_reply ''Hi there''" and lg = "[]"
        and prompt = "''hello''" and resp = "text_response 200 ''Hi there''"
        and j = "gemini_body (PStr ''Hi there'')"
        and c = "PDict [(''content'', PDict [(''parts'', PList [PDict [(''text'', PStr ''Hi there'')]])])]"
        and cs = "[]" and ct = "PDict [(''parts'', PList [PDict [(''text'', PStr ''Hi there'')]])]"
        and p = "PDict [(''text'', PStr ''Hi there'')]" and ps = "[]" and v = "PStr ''Hi there''"] 3
    by simp
  have d: "fst (call_gemini_api env_garbled [] ''hello'') =
      PStr ''Error: Expecting value: line 1 column 1 (char 0)''"
    using call_gemini_api_cases [where env = env_garbled and lg = "[]" and prompt = "''hello''"
        and e = "LibraryError ''Expecting value: line 1 column 1 (char 0)''"
        and resp = garbled_response] 4
    by (simp add: s stub_exn_str_def)
  show ?thesis using a b c d by simp
qed

text \<open>
  C4 as stated fails at status 201: the body carries a first text part, and the result is
  the \<open>Error 201\<close> string with the raw body.
\<close>

theorem call_gemini_api_created_counterexample:
  "requests_post env_created [] ''hello'' = Inr (text_response 201 ''Hi there'') \<and>
   status_code (text_response 201 ''Hi there'') = 201 \<and>
   candidate_text (text_response 201 ''Hi there'') = Inr (PStr ''Hi there'') \<and>
   fst (call_gemini_api env_created [] ''hello'') =
     PStr (''Error 201: '' @ resp_text (text_response 201 ''Hi there''))"
proof -
  have "status_code (text_response 201 ''Hi there'') = 201"
    by (simp add: text_response_def)
  then show ?thesis
    by (simp add: fst_call_gemini_api candidate_text_text_response env_created_def stub_env_def
        str_int_def str_nat.simps)
qed

section \<open>The company check: results\<close>

lemma py_strip_Cons_nonspace:
  assumes "\<not> py_isspace c"
  shows "\<exists>t. py_strip (c # s) = c # t"
proof -
  have "\<exists>u. dropWhile py_isspace (rev s @ [c]) = u @ [c]"
    using assms by (simp add: dropWhile_append)
  then obtain u where "dropWhile py_isspace (rev s @ [c]) = u @ [c]" by blast
  then show ?thesis using assms by (simp add: py_strip_def)
qed

lemma error_not_valid:
  assumes "py_startswith s ''Error''"
  shows "py_lower (py_strip s) \<noteq> ''valid''"
proof -
  from assms obtain t where s: "s = CHR ''E'' # t"
    by (cases s) (auto simp: py_startswith_def)
  have "\<not> py_isspace CHR ''E''" by (simp add: py_isspace_def)
  then obtain u where "py_strip s = CHR ''E'' # u"
    unfolding s using py_strip_Cons_nonspace by blast
  then show ?thesis
    by (simp add: py_lower_def py_lower_char_def lower_table_def)
qed

lemma fst_gemini_check_company:
  "fst (gemini_check_company env lg name) =
     (case fst (call_gemini_api env lg (check_prompt name)) of
        PStr s \<Rightarrow> Inr (py_lower (py_strip s) = ''valid'')
      | _ \<Rightarrow> Inl AttributeError)"
  by (simp add: gemini_check_company_def split: prod.splits)


text \<open>
  C5. The check answers \<open>True\<close> exactly when the response is a text that is
  \<open>valid\<close> after \<open>strip\<close> and \<open>lower\<close>; every other text gives
  \<open>False\<close>, and so does every text that begins with \<open>Error\<close>.
\<close>

theorem gemini_check_company_valid_iff:
  "(fst (gemini_check_company env lg name) = Inr True \<longleftrightarrow>
      (\<exists>s. fst (call_gemini_api env lg (check_prompt name)) = PStr s \<and>
           py_lower (py_strip s) = ''valid'')) \<and>
   (\<forall>s. fst (call_gemini_api env lg (check_prompt name)) = PStr s \<and>
        py_lower (py_strip s) \<noteq> ''valid'' \<longrightarrow>
        fst (gemini_check_company env lg name) = Inr False) \<and>
   (\<forall>s. fst (call_gemini_api env lg (check_prompt name)) = PStr s \<and>
        py_startswith s ''Error'' \<longrightarrow>
        fst (gemini_check_company env lg name) = Inr False)"
  by (auto simp: fst_gemini_check_company error_not_valid split: pyval.splits)

lemma lower_strip_examples:
  "py_lower (py_strip '' Valid '') = ''valid''"
  "py_lower (py_strip ''VALID company'') \<noteq> ''valid''"
  "py_lower (py_strip ''VALID'') = ''valid''"
  by (simp_all add: py_lower_def py_strip_def py_isspace_def py_lower_char_def lower_table_def)

text \<open>C5 on three explicit replies.\<close>

theorem gemini_check_company_valid_iff_witness:
  "fst (gemini_check_company (env_reply '' Valid '') [] ''Acme'') = Inr True \<and>
   fst (gemini_check_company (env_reply ''VALID company'') [] ''Acme'') = Inr False \<and>
   py_startswith ''Error 500: server error'' ''Error'' \<and>
   fst (gemini_check_company env_500 [] ''Acme'') = Inr False"
proof -
  have a: "fst (gemini_check_company (env_reply '' Valid '') [] ''Acme'') = Inr True"
    using gemini_check_company_valid_iff [of "env_reply '' Valid ''" "[]" "''Acme''"]
    by (simp add: call_env_reply lower_strip_examples)
  have b: "fst (gemini_check_company (env_reply ''VALID company'') [] ''Acme'') = Inr False"
    using gemini_check_company_valid_iff [of "env_reply ''VALID company''" "[]" "''Acme''"]
      lower_strip_examples(2)
    by (simp add: call_env_reply)
  have c: "py_startswith ''Error 500: server error'' ''Error''"
    by (simp add: py_startswith_def)
  have d: "fst (gemini_check_company env_500 [] ''Acme'') = Inr False"
    using gemini_check_company_valid_iff [of env_500 "[]" "''Acme''"] c
    by (simp add: call_env_500)
  show ?thesis using a b c d by simp
qed

section \<open>The test flow on an empty question\<close>

lemma extract_blank: "extract_json blank_text = blank_text"
  by (simp add: blank_text_def extract_json_def py_find_def py_rfind_def py_slice_def
      py_strip_def py_isspace_def Let_def)

lemma strips:
  "py_strip ''Acme'' = ''Acme''" "py_strip ''developer'' = ''developer''"
  "py_strip ''first answer'' = ''first answer''"
  by (simp_all add: py_strip_def py_isspace_def)

lemma valid_VALID: "py_lower (py_strip ''VALID'') = ''valid''"
  by (simp add: py_lower_def py_strip_def py_isspace_def py_lower_char_def lower_table_def)

lemma env_blank_fields:
  "contains_profanity env_blank s = (s = ''damn'')"
  "requests_post env_blank lg p = Inr (text_response 200 (if lg = [] then ''VALID'' else blank_text))"
  "json_loads env_blank = blank_loads"
  by (simp_all add: env_blank_def stub_env_def contains_profanity_def)

lemma py_format_PStr: "py_format env (PStr s) = s"
  by (simp add: py_format_def)

lemma run_blank_company: "run env_blank [StartTest, Send ''Acme''] =
  \<lparr>conversation_history = [\<lparr>sender = ''user'', turn_text = ''Acme''\<rparr>],
   test_manager = TestManager_init\<lparr>in_test := True, company := ''Acme''\<rparr>,
   is_processing = False,
   chat_display = chat_display (start_test EnhancedChatbotGUI_init) @
      [(''You'', ''Acme'', False),
       (''JoSi'', ''Great! Now enter the role you're applying for at Acme:'', False)],
   sent = [check_prompt ''Acme'']\<rparr>"
  by (simp add: run_def start_test_def EnhancedChatbotGUI_init_def add_message_def send_message_def
      strips env_blank_fields process_test_message_def handle_test_flow_def set_company_def
      gemini_check_company_def call_text_response valid_VALID enable_input_def TestManager_init_def Let_def)


lemma blank_parse: "parse_questions env_blank blank_text = Inr (blank_tech, blank_beh)"
  by (simp add: parse_questions_def env_blank_fields blank_loads_def raise_bind_def
      blank_tech_def blank_beh_def)

lemma blank_generate:
  "lg \<noteq> [] \<Longrightarrow> gemini_generate_questions env_blank lg r =
     (Inr (blank_tech, blank_beh), lg @ [questions_prompt r])"
  by (simp add: gemini_generate_questions_def call_text_response env_blank_fields
      extract_blank blank_parse)

lemma str_int_0: "str_int 0 = ''0''"
  by (simp add: str_int_def str_nat.simps)

lemma py_len_blank: "py_len blank_tech = Inr 5" "py_len blank_beh = Inr 5"
  by (simp_all add: blank_tech_def blank_beh_def)

lemma next_question_blank_state:
  assumes "technical_questions tm = blank_tech" "behavioral_questions tm = blank_beh"
    "question_index tm = 0"
  shows "next_question tm = Inr (PStr [], tm)"
  using assms by (simp add: next_question_def blank_tech_def blank_beh_def raise_bind_def)

lemma ask_blank:
  assumes "technical_questions (test_manager a) = blank_tech"
    "behavioral_questions (test_manager a) = blank_beh"
    "question_index (test_manager a) = 0"
  shows "ask_next_question env a = (None, add_message ''JoSi'' ''**Q0:** '' False a)"
  using assms
  by (simp add: ask_next_question_def next_question_blank_state py_format_PStr str_int_0)

lemma run_blank_role: "run env_blank [StartTest, Send ''Acme'', Send ''developer''] =
  \<lparr>conversation_history = [\<lparr>sender = ''user'', turn_text = ''Acme''\<rparr>,
     \<lparr>sender = ''user'', turn_text = ''developer''\<rparr>],
   test_manager = tm_blank,
   is_processing = False,
   chat_display = chat_display (start_test EnhancedChatbotGUI_init) @
      [(''You'', ''Acme'', False),
       (''JoSi'', ''Great! Now enter the role you're applying for at Acme:'', False),
       (''You'', ''developer'', False),
       (''JoSi'', ''Excellent! Let's begin with the first question:'', False),
       (''JoSi'', ''**Q0:** '', False)],
   sent = [check_prompt ''Acme'', questions_prompt ''developer'']\<rparr>"
  (is "_ = ?rhs")
proof -
  have "run env_blank [StartTest, Send ''Acme'', Send ''developer''] =
      send_message env_blank ''developer'' (run env_blank [StartTest, Send ''Acme''])"
    by (simp add: run_def)
  also have "\<dots> = ?rhs"
    unfolding run_blank_company
    by (simp add: send_message_def strips env_blank_fields add_message_def
        process_test_message_def handle_test_flow_def TestManager_init_def Let_def set_role_def
        generate_test_questions_def blank_generate
        ask_blank enable_input_def tm_blank_def)
  finally show ?thesis .
qed


text \<open>
  C1 at a question set whose first technical question is the empty string. The service
  accepts the company and replies to the question prompt with that set. \<open>next_question\<close>
  returns the empty question without moving the index, so the question shown is numbered 0,
  and after the first answer the same question is shown again, where C1 has question 2.
\<close>

theorem test_flow_blank_question:
  "run env_blank [StartTest, Send ''Acme'', Send ''developer'', Send ''first answer''] =
  \<lparr>conversation_history = [\<lparr>sender = ''user'', turn_text = ''Acme''\<rparr>,
     \<lparr>sender = ''user'', turn_text = ''developer''\<rparr>,
     \<lparr>sender = ''user'', turn_text = ''first answer''\<rparr>],
   test_manager = tm_blank\<lparr>user_answers := [''first answer'']\<rparr>,
   is_processing = False,
   chat_display = chat_display (start_test EnhancedChatbotGUI_init) @
      [(''You'', ''Acme'', False),
       (''JoSi'', ''Great! Now enter the role you're applying for at Acme:'', False),
       (''You'', ''developer'', False),
       (''JoSi'', ''Excellent! Let's begin with the first question:'', False),
       (''JoSi'', ''**Q0:** '', False),
       (''You'', ''first answer'', False),
       (''JoSi'', ''**Q0:** '', False)],
   sent = [check_prompt ''Acme'', questions_prompt ''developer'']\<rparr>"
  (is "_ = ?rhs")
proof -
  have "run env_blank [StartTest, Send ''Acme'', Send ''developer'', Send ''first answer''] =
      send_message env_blank ''first answer''
        (run env_blank [StartTest, Send ''Acme'', Send ''developer''])"
    by (simp add: run_def)
  also have "\<dots> = ?rhs"
    unfolding run_blank_role
    by (simp add: send_message_def strips env_blank_fields add_message_def
        process_test_message_def handle_test_flow_def Let_def store_answer_def
        all_answers_collected_def raise_bind_def py_len_blank
        ask_blank enable_input_def tm_blank_def)
  finally show ?thesis .
qed

text \<open>
  C10 at the same question set: the question at index 0 is returned, and the index stays 0
  where C10 has it incremented.
\<close>

theorem next_question_empty_question:
  "py_getitem_int (technical_questions tm_blank) (question_index tm_blank) = Inr (PStr []) \<and>
   next_question tm_blank = Inr (PStr [], tm_blank) \<and>
   question_index tm_blank = 0"
proof -
  have f: "technical_questions tm_blank = blank_tech" "behavioral_questions tm_blank = blank_beh"
    "question_index tm_blank = 0"
    by (simp_all add: tm_blank_def)
  have "py_getitem_int blank_tech 0 = Inr (PStr [])"
    by (simp add: blank_tech_def)
  then show ?thesis
    by (simp add: f next_question_blank_state)
qed

section \<open>The question generator: results\<close>

lemma py_find_first:
  assumes "c \<notin> set pre"
  shows "py_find (pre @ c # rest) c = int (length pre)"
  using assms by (simp add: py_find_def takeWhile_append)

lemma py_rfind_last:
  assumes "c \<notin> set post"
  shows "py_rfind (front @ c # post) c = int (length front)"
  using assms by (simp add: py_rfind_def takeWhile_append)

lemma py_strip_braces:
  "py_strip (CHR ''{'' # mid @ [CHR ''}'']) = CHR ''{'' # mid @ [CHR ''}'']"
  by (simp add: py_strip_def py_isspace_def)

lemma extract_json_span:
  assumes "CHR ''{'' \<notin> set pre" and "CHR ''}'' \<notin> set post"
  shows "extract_json (pre @ CHR ''{'' # mid @ CHR ''}'' # post) = CHR ''{'' # mid @ [CHR ''}'']"
proof -
  let ?raw = "pre @ CHR ''{'' # mid @ CHR ''}'' # post"
  have s: "py_find ?raw CHR ''{'' = int (length pre)"
    using assms(1) by (rule py_find_first)
  have "py_rfind ((pre @ CHR ''{'' # mid) @ CHR ''}'' # post) CHR ''}'' =
      int (length (pre @ CHR ''{'' # mid))"
    using assms(2) by (rule py_rfind_last)
  then have e: "py_rfind ?raw CHR ''}'' = int (length pre + 1 + length mid)"
    by simp
  have "py_slice ?raw (int (length pre)) (int (length pre + 1 + length mid) + 1) =
      CHR ''{'' # mid @ [CHR ''}'']"
    by (simp add: py_slice_def nat_add_distrib)
  then show ?thesis
    using py_strip_braces [of mid] by (simp add: extract_json_def s e Let_def)
qed

lemma extract_json_no_span:
  assumes "\<not> (\<exists>pre mid post. raw = pre @ CHR ''{'' # mid @ CHR ''}'' # post)"
  shows "extract_json raw = []"
proof (rule ccontr)
  assume ne: "extract_json raw \<noteq> []"
  then have a: "CHR ''{'' \<in> set raw" and b: "CHR ''}'' \<in> set raw"
    and lt: "py_find raw CHR ''{'' < py_rfind raw CHR ''}''"
    by (auto simp: extract_json_def Let_def py_find_def py_rfind_def split: if_splits)
  from a obtain pre rest where r1: "raw = pre @ CHR ''{'' # rest" and p: "CHR ''{'' \<notin> set pre"
    by (meson split_list_first)
  from b obtain front post where r2: "raw = front @ CHR ''}'' # post" and q: "CHR ''}'' \<notin> set post"
    by (meson split_list_last)
  have "py_find raw CHR ''{'' = int (length pre)"
    unfolding r1 using p by (rule py_find_first)
  moreover have "py_rfind raw CHR ''}'' = int (length front)"
    unfolding r2 using q by (rule py_rfind_last)
  ultimately have len: "length pre < length front" using lt by simp
  have "take (length pre) raw = pre" using r1 by simp
  moreover have "take (length pre) raw = take (length pre) front" using r2 len by simp
  ultimately have "front = pre @ drop (length pre) front"
    by (metis append_take_drop_id)
  moreover have "drop (length pre) front \<noteq> []" using len by simp
  moreover have "hd (drop (length pre) front) = CHR ''{''"
    using r1 r2 len by (metis hd_drop_conv_nth nth_append nth_append_length)
  ultimately obtain mid where "front = pre @ CHR ''{'' # mid"
    by (metis list.collapse)
  then have "raw = pre @ CHR ''{'' # mid @ CHR ''}'' # post" using r2 by simp
  then show False using assms by blast
qed

lemma parse_questions_Inr_iff:
  "parse_questions env js = Inr (tech, beh) \<longleftrightarrow>
     (\<exists>data. json_loads env js = Inr data \<and>
        py_getitem_str data ''technical_questions'' = Inr tech \<and>
        py_getitem_str data ''behavioral_questions'' = Inr beh \<and>
        py_len tech = Inr 5 \<and> py_len beh = Inr 5)"
  by (auto simp: parse_questions_def raise_bind_def split: sum.splits if_splits)

lemma py_len_fallback: "py_len fallback_tech = Inr 5" "py_len fallback_beh = Inr 5"
  by (simp_all add: fallback_tech_def fallback_beh_def)

lemma fst_gemini_generate_questions:
  "fst (gemini_generate_questions env lg r) =
     (case fst (call_gemini_api env lg (questions_prompt r)) of
        PStr raw \<Rightarrow>
          Inr (case parse_questions env (extract_json raw) of
                 Inl e \<Rightarrow> (fallback_tech, fallback_beh)
               | Inr tb \<Rightarrow> tb)
      | _ \<Rightarrow> Inl AttributeError)"
  by (simp add: gemini_generate_questions_def split: prod.splits)


text \<open>
  C3, as the code has it, for a response that is a text. The result is a pair of values of
  length 5 each. It is the pair stored under the two keys when the span from the first
  \<open>{\<close> to the last \<open>}\<close> decodes to an object that has both keys with values of
  length 5, and the fallback pair in every other case. The elements are not inspected.
\<close>

theorem gemini_generate_questions_result:
  assumes "fst (call_gemini_api env lg (questions_prompt r)) = PStr raw"
  shows
    "(\<exists>tech beh. fst (gemini_generate_questions env lg r) = Inr (tech, beh) \<and>
        py_len tech = Inr 5 \<and> py_len beh = Inr 5) \<and>
     (\<forall>data tech beh.
        json_loads env (extract_json raw) = Inr data \<and>
        py_getitem_str data ''technical_questions'' = Inr tech \<and>
        py_getitem_str data ''behavioral_questions'' = Inr beh \<and>
        py_len tech = Inr 5 \<and> py_len beh = Inr 5 \<longrightarrow>
        fst (gemini_generate_questions env lg r) = Inr (tech, beh)) \<and>
     (\<not> (\<exists>data tech beh.
        json_loads env (extract_json raw) = Inr data \<and>
        py_getitem_str data ''technical_questions'' = Inr tech \<and>
        py_getitem_str data ''behavioral_questions'' = Inr beh \<and>
        py_len tech = Inr 5 \<and> py_len beh = Inr 5) \<longrightarrow>
        fst (gemini_generate_questions env lg r) = Inr (fallback_tech, fallback_beh)) \<and>
     (\<forall>pre mid post.
        raw = pre @ CHR ''{'' # mid @ CHR ''}'' # post \<and>
        CHR ''{'' \<notin> set pre \<and> CHR ''}'' \<notin> set post \<longrightarrow>
        extract_json raw = CHR ''{'' # mid @ [CHR ''}'']) \<and>
     (\<not> (\<exists>pre mid post. raw = pre @ CHR ''{'' # mid @ CHR ''}'' # post) \<longrightarrow>
        extract_json raw = [])"
proof (intro conjI)
  show "\<exists>tech beh. fst (gemini_generate_questions env lg r) = Inr (tech, beh) \<and>
        py_len tech = Inr 5 \<and> py_len beh = Inr 5"
  proof (cases "parse_questions env (extract_json raw)")
    case (Inl e)
    then show ?thesis
      by (simp add: fst_gemini_generate_questions assms py_len_fallback)
  next
    case (Inr tb)
    obtain tech beh where tb: "tb = (tech, beh)" by (cases tb)
    with Inr have "py_len tech = Inr 5 \<and> py_len beh = Inr 5"
      by (auto simp: parse_questions_Inr_iff)
    with Inr tb show ?thesis
      by (simp add: fst_gemini_generate_questions assms)
  qed
next
  show "\<forall>data tech beh.
        json_loads env (extract_json raw) = Inr data \<and>
        py_getitem_str data ''technical_questions'' = Inr tech \<and>
        py_getitem_str data ''behavioral_questions'' = Inr beh \<and>
        py_len tech = Inr 5 \<and> py_len beh = Inr 5 \<longrightarrow>
        fst (gemini_generate_questions env lg r) = Inr (tech, beh)"
  proof (intro allI impI)
    fix data tech beh
    assume "json_loads env (extract_json raw) = Inr data \<and>
        py_getitem_str data ''technical_questions'' = Inr tech \<and>
        py_getitem_str data ''behavioral_questions'' = Inr beh \<and>
        py_len tech = Inr 5 \<and> py_len beh = Inr 5"
    then have "parse_questions env (extract_json raw) = Inr (tech, beh)"
      unfolding parse_questions_Inr_iff by blast
    then show "fst (gemini_generate_questions env lg r) = Inr (tech, beh)"
      by (simp add: fst_gemini_generate_questions assms)
  qed
next
  show "\<not> (\<exists>data tech beh.
        json_loads env (extract_json raw) = Inr data \<and>
        py_getitem_str data ''technical_questions'' = Inr tech \<and>
        py_getitem_str data ''behavioral_questions'' = Inr beh \<and>
        py_len tech = Inr 5 \<and> py_len beh = Inr 5) \<longrightarrow>
        fst (gemini_generate_questions env lg r) = Inr (fallback_tech, fallback_beh)"
  proof
    assume n: "\<not> (\<exists>data tech beh.
        json_loads env (extract_json raw) = Inr data \<and>
        py_getitem_str data ''technical_questions'' = Inr tech \<and>
        py_getitem_str data ''behavioral_questions'' = Inr beh \<and>
        py_len tech = Inr 5 \<and> py_len beh = Inr 5)"
    have "\<exists>e. parse_questions env (extract_json raw) = Inl e"
    proof (cases "parse_questions env (extract_json raw)")
      case (Inr tb)
      obtain tech beh where "tb = (tech, beh)" by (cases tb)
      with Inr n show ?thesis by (auto simp: parse_questions_Inr_iff)
    qed simp
    then show "fst (gemini_generate_questions env lg r) = Inr (fallback_tech, fallback_beh)"
      by (auto simp: fst_gemini_generate_questions assms)
  qed
next
  show "\<forall>pre mid post.
        raw = pre @ CHR ''{'' # mid @ CHR ''}'' # post \<and>
        CHR ''{'' \<notin> set pre \<and> CHR ''}'' \<notin> set post \<longrightarrow>
        extract_json raw = CHR ''{'' # mid @ [CHR ''}'']"
    using extract_json_span by blast
next
  show "\<not> (\<exists>pre mid post. raw = pre @ CHR ''{'' # mid @ CHR ''}'' # post) \<longrightarrow>
        extract_json raw = []"
    using extract_json_no_span by blast
qed


lemma extract_numbers: "extract_json numbers_text = numbers_text"
  by (simp add: numbers_text_def extract_json_def py_find_def py_rfind_def py_slice_def
      py_strip_def py_isspace_def Let_def)

lemma call_env_numbers: "call_gemini_api env_numbers lg p = (PStr numbers_text, lg @ [p])"
  by (rule call_text_response) (simp add: env_numbers_def stub_env_def)

lemma loads_env_numbers:
  "json_loads env_numbers numbers_text =
     Inr (PDict [(''technical_questions'', PList [PInt 1, PInt 2, PInt 3, PInt 4, PInt 5]),
                 (''behavioral_questions'', PList [PInt 6, PInt 7, PInt 8, PInt 9, PInt 10])])"
  by (simp add: env_numbers_def stub_env_def numbers_loads_def)

text \<open>
  C3 as stated fails on a reply whose arrays hold five numbers each: the result is these
  arrays, not question strings.
\<close>

theorem gemini_generate_questions_numbers_counterexample:
  "fst (call_gemini_api env_numbers [] (questions_prompt ''developer'')) = PStr numbers_text \<and>
   fst (gemini_generate_questions env_numbers [] ''developer'') =
     Inr (PList [PInt 1, PInt 2, PInt 3, PInt 4, PInt 5],
          PList [PInt 6, PInt 7, PInt 8, PInt 9, PInt 10])"
  by (simp add: gemini_generate_questions_def call_env_numbers extract_numbers
      parse_questions_def loads_env_numbers raise_bind_def)

text \<open>C3 on a reply that decodes and on a reply without braces.\<close>

theorem gemini_generate_questions_result_witness:
  "fst (call_gemini_api env_numbers [] (questions_prompt ''developer'')) = PStr numbers_text \<and>
   json_loads env_numbers (extract_json numbers_text) =
     Inr (PDict [(''technical_questions'', PList [PInt 1, PInt 2, PInt 3, PInt 4, PInt 5]),
                 (''behavioral_questions'', PList [PInt 6, PInt 7, PInt 8, PInt 9, PInt 10])]) \<and>
   py_len (PList [PInt 1, PInt 2, PInt 3, PInt 4, PInt 5]) = Inr 5 \<and>
   py_len (PList [PInt 6, PInt 7, PInt 8, PInt 9, PInt 10]) = Inr 5 \<and>
   fst (gemini_generate_questions env_numbers [] ''developer'') =
     Inr (PList [PInt 1, PInt 2, PInt 3, PInt 4, PInt 5],
          PList [PInt 6, PInt 7, PInt 8, PInt 9, PInt 10]) \<and>
   fst (call_gemini_api (env_reply ''Sorry'') [] (questions_prompt ''developer'')) = PStr ''Sorry'' \<and>
   extract_json ''Sorry'' = [] \<and>
   fst (gemini_generate_questions (env_reply ''Sorry'') [] ''developer'') =
     Inr (fallback_tech, fallback_beh)"
proof -
  have h1: "fst (call_gemini_api env_numbers [] (questions_prompt ''developer'')) = PStr numbers_text"
    by (simp add: call_env_numbers)
  have l: "json_loads env_numbers (extract_json numbers_text) =
     Inr (PDict [(''technical_questions'', PList [PInt 1, PInt 2, PInt 3, PInt 4, PInt 5]),
                 (''behavioral_questions'', PList [PInt 6, PInt 7, PInt 8, PInt 9, PInt 10])])"
    by (simp add: extract_numbers loads_env_numbers)
  have a: "fst (gemini_generate_questions env_numbers [] ''developer'') =
     Inr (PList [PInt 1, PInt 2, PInt 3, PInt 4, PInt 5],
          PList [PInt 6, PInt 7, PInt 8, PInt 9, PInt 10])"
    using gemini_generate_questions_result [OF h1] l by simp
  have h2: "fst (call_gemini_api (env_reply ''Sorry'') [] (questions_prompt ''developer'')) =
      PStr ''Sorry''"
    by (simp add: call_env_reply)
  have n: "\<not> (\<exists>pre mid post. ''Sorry'' = pre @ CHR ''{'' # mid @ CHR ''}'' # post)"
  proof
    assume "\<exists>pre mid post. ''Sorry'' = pre @ CHR ''{'' # mid @ CHR ''}'' # post"
    then obtain pre mid post where "''Sorry'' = pre @ CHR ''{'' # mid @ CHR ''}'' # post"
      by blast
    then have "CHR ''{'' \<in> set ''Sorry''"
      by (metis in_set_conv_decomp)
    then show False by simp
  qed
  have e: "extract_json ''Sorry'' = []"
    using gemini_generate_questions_result [OF h2] n by blast
  have r: "\<not> (\<exists>data tech beh.
        json_loads (env_reply ''Sorry'') (extract_json ''Sorry'') = Inr data \<and>
        py_getitem_str data ''technical_questions'' = Inr tech \<and>
        py_getitem_str data ''behavioral_questions'' = Inr beh \<and>
        py_len tech = Inr 5 \<and> py_len beh = Inr 5)"
    by (simp add: env_reply_def stub_env_def loads_reject_def)
  have b: "fst (gemini_generate_questions (env_reply ''Sorry'') [] ''developer'') =
     Inr (fallback_tech, fallback_beh)"
    using gemini_generate_questions_result [OF h2] r by blast
  show ?thesis using h1 l a h2 e b by simp
qed

section \<open>The chat window: results\<close>

lemma add_message_fields [simp]:
  "conversation_history (add_message w m e a) = conversation_history a"
  "test_manager (add_message w m e a) = test_manager a"
  "is_processing (add_message w m e a) = is_processing a"
  "sent (add_message w m e a) = sent a"
  "chat_display (add_message w m e a) = chat_display a @ [(w, m, e)]"
  by (simp_all add: add_message_def)

lemma enable_input_fields [simp]:
  "conversation_history (enable_input a) = conversation_history a"
  "test_manager (enable_input a) = test_manager a"
  "is_processing (enable_input a) = False"
  "sent (enable_input a) = sent a"
  "chat_display (enable_input a) = chat_display a"
  by (simp_all add: enable_input_def)

lemma exit_test_fields [simp]:
  "conversation_history (exit_test a) = conversation_history a"
  "test_manager (exit_test a) = TestManager_init"
  "is_processing (exit_test a) = is_processing a"
  "sent (exit_test a) = sent a"
  by (simp_all add: exit_test_def)

lemma start_test_fields [simp]:
  "conversation_history (start_test a) = conversation_history a"
  "test_manager (start_test a) = (test_manager a)\<lparr>in_test := True\<rparr>"
  "is_processing (start_test a) = is_processing a"
  "sent (start_test a) = sent a"
  by (simp_all add: start_test_def)

lemma evaluate_and_exit_history [simp]:
  "conversation_history (snd (evaluate_and_exit env a)) = conversation_history a"
  by (simp add: evaluate_and_exit_def add_message_value_def split: prod.splits sum.splits pyval.splits)

lemma ask_next_question_history [simp]:
  "conversation_history (snd (ask_next_question env a)) = conversation_history a"
  by (simp add: ask_next_question_def split: prod.splits sum.splits)

lemma handle_test_flow_history [simp]:
  "conversation_history (snd (handle_test_flow env u a)) = conversation_history a"
  by (simp add: handle_test_flow_def Let_def split: prod.splits sum.splits)

lemma process_test_message_history [simp]:
  "conversation_history (process_test_message env u a) = conversation_history a"
proof -
  obtain r a' where h: "handle_test_flow env u a = (r, a')" by (cases "handle_test_flow env u a")
  then have "conversation_history a' = conversation_history a"
    using handle_test_flow_history [of env u a] by simp
  with h show ?thesis
    by (simp add: process_test_message_def split: option.splits)
qed






















section \<open>The test session: results\<close>

























lemma next_question_end:
  assumes "technical_questions tm = PList ts" and "behavioral_questions tm = PList bs"
    and "length ts + length bs \<le> question_index tm"
  shows "next_question tm = Inr (PNone, tm)"
  using assms by (simp add: next_question_def raise_bind_def)















end
